theory Spec2Isabelle
  imports Main "HOL-Library.Word" "HOL-Library.Multiset"
begin

section \<open>The e-Library store of \<open>main.go\<close>\<close>

subsection \<open>Data model\<close>

text \<open>
  Go's \<open>int\<close> is a two's complement machine integer whose arithmetic wraps around; on the
  64-bit platforms it has 64 bits. \<open>AvailableCopies\<close> is therefore a 64-bit word, read as a
  signed number with \<open>sint\<close>.
\<close>

type_synonym go_int = "64 word"

record BookDetail =
  Title :: string
  AvailableCopies :: go_int

text \<open>
  \<open>time.Time\<close> and its method \<open>AddDate\<close> belong to Go's standard library, not to the
  program. The program obtains a time from \<open>time.Now()\<close>, stores it and calls
  \<open>AddDate(0, 0, n)\<close> on it. The type of times is therefore a type parameter \<open>'t\<close>, and
  each operation that calls \<open>AddDate\<close> takes the function \<open>addDate\<close> as a parameter:
  \<open>addDate n t\<close> stands for \<open>t.AddDate(0, 0, n)\<close>. What is proved for every \<open>addDate\<close>
  holds for the library's function, whatever it computes.
\<close>

record 't LoanDetail =
  BookTitle :: string
  NameOfBorrower :: string
  LoanDate :: 't
  ReturnDate :: 't

text \<open>
  The \<open>Library\<close> struct: two Go maps. A slice is modelled by the list of its elements; every
  slice of the program is reachable from one key of \<open>Loans\<close> only, so no two of them share a
  backing array. The mutex serialises the handlers and has no sequential content.
\<close>

record 't Library =
  Books :: "string \<rightharpoonup> BookDetail"
  Loans :: "string \<rightharpoonup> 't LoanDetail list"

definition NewLibrary :: "'t Library" where
  "NewLibrary =
     \<lparr>Books = [''Go Programming'' \<mapsto> \<lparr>Title = ''Go Programming'', AvailableCopies = 3\<rparr>,
               ''Clean Code'' \<mapsto> \<lparr>Title = ''Clean Code'', AvailableCopies = 2\<rparr>],
      Loans = Map.empty\<rparr>"

subsection \<open>Results of a handler\<close>

text \<open>One constructor for each \<open>http.Error\<close> call of the source, named after its message.\<close>

datatype error =
    MethodNotAllowed
  | TitleQueryRequired
  | InvalidRequestBody
  | TitleAndBorrowerRequired
  | BookNotFound
  | NoCopiesAvailable
  | NoLoansForBook
  | NoLoanForBorrower

fun statusCode :: "error \<Rightarrow> nat" where
  "statusCode MethodNotAllowed = 405"
| "statusCode TitleQueryRequired = 400"
| "statusCode InvalidRequestBody = 400"
| "statusCode TitleAndBorrowerRequired = 400"
| "statusCode BookNotFound = 404"
| "statusCode NoCopiesAvailable = 409"
| "statusCode NoLoansForBook = 404"
| "statusCode NoLoanForBorrower = 404"

text \<open>The body that a successful handler encodes, with its status.\<close>

datatype 't response =
    OK_Book BookDetail
  | Created_Loan "'t LoanDetail"
  | OK_Loan "'t LoanDetail"
  | OK_Message string

subsection \<open>The operations under the lock\<close>

text \<open>
  Each operation is the part of its handler between taking the lock and the end of the
  handler. It takes the library and returns it as the handler leaves it, with the result.
\<close>

definition getBook :: "'t Library \<Rightarrow> string \<Rightarrow> 't Library \<times> (error + 't response)" where
  \<comment> \<open>\<open>getBookHandler\<close>, from \<open>l.mutex.RLock()\<close> on\<close>
  "getBook l title =
     (case Books l title of
        None \<Rightarrow> (l, Inl BookNotFound)
      | Some book \<Rightarrow> (l, Inr (OK_Book book)))"

definition borrowBook ::
  "(int \<Rightarrow> 't \<Rightarrow> 't) \<Rightarrow> 't Library \<Rightarrow> 't \<Rightarrow> string \<Rightarrow> string \<Rightarrow> 't Library \<times> (error + 't response)" where
  \<comment> \<open>\<open>borrowBookHandler\<close>, from \<open>l.mutex.Lock()\<close> on; \<open>now\<close> is the value of \<open>time.Now()\<close>\<close>
  "borrowBook addDate l now title borrower =
     (case Books l title of
        None \<Rightarrow> (l, Inl BookNotFound)
      | Some book \<Rightarrow>
          if sint (AvailableCopies book) \<le> 0 then (l, Inl NoCopiesAvailable)
          else
            let book1 = book\<lparr>AvailableCopies := AvailableCopies book - 1\<rparr>;
                l1 = l\<lparr>Books := (Books l)(title \<mapsto> book1)\<rparr>;
                loan = \<lparr>BookTitle = title, NameOfBorrower = borrower,
                        LoanDate = now, ReturnDate = addDate 28 now\<rparr>;
                old = (case Loans l1 title of None \<Rightarrow> [] | Some loans \<Rightarrow> loans);
                l2 = l1\<lparr>Loans := (Loans l1)(title \<mapsto> old @ [loan])\<rparr>
            in (l2, Inr (Created_Loan loan)))"

text \<open>
  The loop of \<open>extendLoanHandler\<close>: it walks the slice in order, rewrites the first loan of
  the borrower and breaks. The result is the slice after the loop with \<open>extendedLoan\<close>, or
  \<open>None\<close> when \<open>loanFound\<close> stays false.
\<close>

fun extendLoop ::
  "(int \<Rightarrow> 't \<Rightarrow> 't) \<Rightarrow> string \<Rightarrow> 't LoanDetail list \<Rightarrow> ('t LoanDetail list \<times> 't LoanDetail) option" where
  "extendLoop addDate borrower [] = None"
| "extendLoop addDate borrower (loan # rest) =
     (if NameOfBorrower loan = borrower then
        let loan1 = loan\<lparr>ReturnDate := addDate 21 (ReturnDate loan)\<rparr>
        in Some (loan1 # rest, loan1)
      else
        (case extendLoop addDate borrower rest of
           None \<Rightarrow> None
         | Some (rest1, extendedLoan) \<Rightarrow> Some (loan # rest1, extendedLoan)))"

definition extendLoan ::
  "(int \<Rightarrow> 't \<Rightarrow> 't) \<Rightarrow> 't Library \<Rightarrow> string \<Rightarrow> string \<Rightarrow> 't Library \<times> (error + 't response)" where
  \<comment> \<open>\<open>extendLoanHandler\<close>, from \<open>l.mutex.Lock()\<close> on\<close>
  "extendLoan addDate l title borrower =
     (case Loans l title of
        None \<Rightarrow> (l, Inl NoLoansForBook)
      | Some loans \<Rightarrow>
          (case extendLoop addDate borrower loans of
             None \<Rightarrow> (l, Inl NoLoanForBorrower)
           | Some (loans1, extendedLoan) \<Rightarrow>
               (l\<lparr>Loans := (Loans l)(title \<mapsto> loans1)\<rparr>, Inr (OK_Loan extendedLoan))))"

text \<open>
  The loop of \<open>returnBookHandler\<close>: \<open>loanIndex\<close> starts at \<open>-1\<close> and becomes the index of
  the first loan of the borrower. The second argument is the part of the slice still to
  visit and the third the index of its first element.
\<close>

fun findLoanIndex :: "string \<Rightarrow> 't LoanDetail list \<Rightarrow> int \<Rightarrow> int" where
  "findLoanIndex borrower [] i = -1"
| "findLoanIndex borrower (loan # rest) i =
     (if NameOfBorrower loan = borrower then i else findLoanIndex borrower rest (i + 1))"

definition returnMessage :: "string \<Rightarrow> string \<Rightarrow> string" where
  \<comment> \<open>\<open>fmt.Sprintf("Book '%s' successfully returned by %s", title, borrower)\<close>\<close>
  "returnMessage title borrower =
     ''Book '' @ [CHR 0x27] @ title @ [CHR 0x27] @ '' successfully returned by '' @ borrower"

definition returnBook :: "'t Library \<Rightarrow> string \<Rightarrow> string \<Rightarrow> 't Library \<times> (error + 't response)" where
  \<comment> \<open>\<open>returnBookHandler\<close>, from \<open>l.mutex.Lock()\<close> on\<close>
  "returnBook l title borrower =
     (case Loans l title of
        None \<Rightarrow> (l, Inl NoLoansForBook)
      | Some loans \<Rightarrow>
          (case Books l title of
             None \<Rightarrow> (l, Inl BookNotFound)
           | Some book \<Rightarrow>
               let loanIndex = findLoanIndex borrower loans 0 in
               if loanIndex = -1 then (l, Inl NoLoanForBorrower)
               else
                 let loans1 = loans[nat loanIndex := loans ! (length loans - 1)];
                     l1 = l\<lparr>Loans := (Loans l)(title \<mapsto> take (length loans - 1) loans1)\<rparr>;
                     book1 = book\<lparr>AvailableCopies := AvailableCopies book + 1\<rparr>;
                     l2 = l1\<lparr>Books := (Books l1)(title \<mapsto> book1)\<rparr>
                 in (l2, Inr (OK_Message (returnMessage title borrower)))))"

subsection \<open>The handlers\<close>

text \<open>
  What a handler reads from the request: the method, the \<open>title\<close> query parameter (empty
  when absent) and the JSON body decoded into the \<open>title\<close> and \<open>borrower\<close> fields
  (\<open>None\<close> when decoding fails).
\<close>

record Request =
  Method :: string
  QueryTitle :: string
  Body :: "(string \<times> string) option"

definition getBookHandler :: "'t Library \<Rightarrow> Request \<Rightarrow> 't Library \<times> (error + 't response)" where
  "getBookHandler l r =
     (if Method r \<noteq> ''GET'' then (l, Inl MethodNotAllowed)
      else if QueryTitle r = [] then (l, Inl TitleQueryRequired)
      else getBook l (QueryTitle r))"

definition borrowBookHandler ::
  "(int \<Rightarrow> 't \<Rightarrow> 't) \<Rightarrow> 't Library \<Rightarrow> 't \<Rightarrow> Request \<Rightarrow> 't Library \<times> (error + 't response)" where
  "borrowBookHandler addDate l now r =
     (if Method r \<noteq> ''POST'' then (l, Inl MethodNotAllowed)
      else case Body r of
        None \<Rightarrow> (l, Inl InvalidRequestBody)
      | Some (title, borrower) \<Rightarrow>
          if title = [] \<or> borrower = [] then (l, Inl TitleAndBorrowerRequired)
          else borrowBook addDate l now title borrower)"

definition extendLoanHandler ::
  "(int \<Rightarrow> 't \<Rightarrow> 't) \<Rightarrow> 't Library \<Rightarrow> Request \<Rightarrow> 't Library \<times> (error + 't response)" where
  "extendLoanHandler addDate l r =
     (if Method r \<noteq> ''POST'' then (l, Inl MethodNotAllowed)
      else case Body r of
        None \<Rightarrow> (l, Inl InvalidRequestBody)
      | Some (title, borrower) \<Rightarrow>
          if title = [] \<or> borrower = [] then (l, Inl TitleAndBorrowerRequired)
          else extendLoan addDate l title borrower)"

definition returnBookHandler :: "'t Library \<Rightarrow> Request \<Rightarrow> 't Library \<times> (error + 't response)" where
  "returnBookHandler l r =
     (if Method r \<noteq> ''POST'' then (l, Inl MethodNotAllowed)
      else case Body r of
        None \<Rightarrow> (l, Inl InvalidRequestBody)
      | Some (title, borrower) \<Rightarrow>
          if title = [] \<or> borrower = [] then (l, Inl TitleAndBorrowerRequired)
          else returnBook l title borrower)"

subsection \<open>Go's date arithmetic, for the examples\<close>

text \<open>
  The concrete states below need concrete times and a concrete \<open>AddDate\<close>. This is a model
  of the part of Go's \<open>time\<close> package that \<open>t.AddDate(0, 0, days)\<close> runs through, for times
  whose seconds stay far from the bounds of Go's 64-bit counters (all times of the
  examples are in 2024).

  A time is its Unix second, its nanosecond and its \<open>Location\<close>. A \<open>Location\<close> is the offset
  in force before its first transition and the list of its transitions in ascending order,
  each the Unix second \<open>when\<close> it happens and the offset east of UTC in force from then on
  (after the last transition listed the last offset stays; the examples end before it).
\<close>

record Location =
  firstOffset :: int
  tx :: "(int \<times> int) list"

record Time =
  unixSec :: int
  nsec :: nat
  loc :: Location

text \<open>
  \<open>l.lookup(sec)\<close>: the offset in force at the Unix second \<open>sec\<close> with the bounds
  \<open>start\<close> and \<open>end\<close> of the interval in which it is in force (\<open>None\<close> for no bound).
\<close>

fun lookupFrom ::
  "int \<Rightarrow> int option \<Rightarrow> (int \<times> int) list \<Rightarrow> int \<Rightarrow> int \<times> int option \<times> int option" where
  "lookupFrom offset start [] sec = (offset, start, None)"
| "lookupFrom offset start ((when, offset1) # rest) sec =
     (if sec < when then (offset, start, Some when)
      else lookupFrom offset1 (Some when) rest sec)"

definition lookup :: "Location \<Rightarrow> int \<Rightarrow> int \<times> int option \<times> int option" where
  "lookup l sec = lookupFrom (firstOffset l) None (tx l) sec"

text \<open>
  The seconds that \<open>t.Date()\<close> and \<open>t.Clock()\<close> read: the Unix second shifted by the offset
  in force. Its quotient by 86400 is the number of the calendar day, its remainder the
  clock reading in seconds.
\<close>

definition localSec :: "Time \<Rightarrow> int" where
  "localSec t = unixSec t + fst (lookup (loc t) (unixSec t))"

text \<open>
  \<open>time.Date\<close> for a calendar day given by its number: it takes the seconds of the wanted
  clock reading as if they were UTC, looks up the offset there, and looks it up again at
  the corrected second when that falls outside the interval of the first offset. A clock
  reading that does not exist in the location, in the gap of a transition, thereby becomes
  another reading.
\<close>

definition Date_day :: "int \<Rightarrow> int \<Rightarrow> nat \<Rightarrow> Location \<Rightarrow> Time" where
  "Date_day day sec ns l =
     (let unix = day * 86400 + sec in
      case lookup l unix of
        (offset, zoneStart, zoneEnd) \<Rightarrow>
          if offset \<noteq> 0 then
            let utc = unix - offset;
                offset1 =
                  (if (case zoneStart of None \<Rightarrow> False | Some s \<Rightarrow> utc < s) \<or>
                      (case zoneEnd of None \<Rightarrow> False | Some e \<Rightarrow> e \<le> utc)
                   then fst (lookup l utc) else offset)
            in \<lparr>unixSec = unix - offset1, nsec = ns, loc = l\<rparr>
          else \<lparr>unixSec = unix, nsec = ns, loc = l\<rparr>)"

definition AddDate_days :: "int \<Rightarrow> Time \<Rightarrow> Time" where
  \<comment> \<open>\<open>t.AddDate(0, 0, days)\<close>: \<open>Date(year, month, day + days, hour, min, sec, nsec, loc)\<close>\<close>
  "AddDate_days days t =
     Date_day (localSec t div 86400 + days) (localSec t mod 86400) (nsec t) (loc t)"

definition UTC :: Location where
  "UTC = \<lparr>firstOffset = 0, tx = []\<rparr>"

definition Unix_UTC :: "int \<Rightarrow> Time" where
  \<comment> \<open>\<open>time.Unix(sec, 0).UTC()\<close>\<close>
  "Unix_UTC sec = \<lparr>unixSec = sec, nsec = 0, loc = UTC\<rparr>"

text \<open>
  America/New_York around 2024: standard time (5 hours west) from 2023-11-05 06:00 UTC,
  daylight-saving time (4 hours west) from 2024-03-10 07:00 UTC, when the clocks go from
  02:00 to 03:00, and standard time again from 2024-11-03 06:00 UTC.
\<close>

definition NewYork :: Location where
  "NewYork =
     \<lparr>firstOffset = - 14400,
      tx = [(1699164000, - 18000), (1710054000, - 14400), (1730613600, - 18000)]\<rparr>"

definition Unix_NewYork :: "int \<Rightarrow> Time" where
  \<comment> \<open>\<open>time.Unix(sec, 0).In(newYork)\<close>\<close>
  "Unix_NewYork sec = \<lparr>unixSec = sec, nsec = 0, loc = NewYork\<rparr>"

subsection \<open>Notions of the specification and states of the tests\<close>

text \<open>The largest value of \<open>int\<close>, Go's \<open>math.MaxInt\<close>.\<close>

definition MaxInt :: go_int where
  "MaxInt = 0x7FFFFFFFFFFFFFFF"

text \<open>The invariant of the specification: no book has a negative \<open>AvailableCopies\<close>.\<close>

definition copiesNonNegative :: "'t Library \<Rightarrow> bool" where
  "copiesNonNegative l =
     (\<forall>title book. Books l title = Some book \<longrightarrow> 0 \<le> sint (AvailableCopies book))"

text \<open>
  ``The first entry matching the given borrower'': index \<open>k\<close> holds a loan of the borrower
  and no earlier index does.
\<close>

definition isFirstLoanOf :: "string \<Rightarrow> 't LoanDetail list \<Rightarrow> nat \<Rightarrow> bool" where
  "isFirstLoanOf borrower loans k =
     (k < length loans \<and> NameOfBorrower (loans ! k) = borrower \<and>
      (\<forall>loan \<in> set (take k loans). NameOfBorrower loan \<noteq> borrower))"

text \<open>
  The libraries that \<open>TestExtendLoanHandler\<close> and \<open>TestReturnBookHandler\<close> set up by
  writing to the two maps, with 2024-02-11 07:30 UTC for their \<open>time.Now()\<close>.
\<close>

definition library :: "Time Library" where
  \<comment> \<open>\<open>library := NewLibrary()\<close>, as every test begins\<close>
  "library = NewLibrary"

definition testNow :: Time where
  "testNow = Unix_UTC 1707636600"

definition testExtendLibrary :: "Time Library" where
  "testExtendLibrary =
     library\<lparr>
       Books := (Books library)(''Clean Code'' \<mapsto> \<lparr>Title = ''Clean Code'', AvailableCopies = 1\<rparr>),
       Loans := (Loans library)(''Clean Code'' \<mapsto>
         [\<lparr>BookTitle = ''Clean Code'', NameOfBorrower = ''Jane Smith'',
           LoanDate = testNow, ReturnDate = AddDate_days 28 testNow\<rparr>])\<rparr>"

definition testReturnLibrary :: "Time Library" where
  "testReturnLibrary =
     library\<lparr>
       Books := (Books library)(''Design Patterns'' \<mapsto>
         \<lparr>Title = ''Design Patterns'', AvailableCopies = 0\<rparr>),
       Loans := (Loans library)(''Design Patterns'' \<mapsto>
         [\<lparr>BookTitle = ''Design Patterns'', NameOfBorrower = ''Bob Johnson'',
           LoanDate = testNow, ReturnDate = AddDate_days 28 testNow\<rparr>])\<rparr>"

text \<open>
  Four more states: a book whose count is the largest \<open>int\<close>, with one loan; the seeded
  library after John and then Jane, twice, have borrowed ``Go Programming'' on three
  successive days; the seeded library of a server in New York after Jane has borrowed
  ``Clean Code'' on 2024-01-21 at 02:30; and the seeded library with a loan of a title that
  the catalog lacks.
\<close>

definition fullCountLibrary :: "Time Library" where
  "fullCountLibrary =
     \<lparr>Books = [''Design Patterns'' \<mapsto> \<lparr>Title = ''Design Patterns'', AvailableCopies = MaxInt\<rparr>],
      Loans = [''Design Patterns'' \<mapsto>
         [\<lparr>BookTitle = ''Design Patterns'', NameOfBorrower = ''Bob Johnson'',
           LoanDate = testNow, ReturnDate = AddDate_days 28 testNow\<rparr>]]\<rparr>"

definition busyLibrary :: "Time Library" where
  "busyLibrary =
     \<lparr>Books = [''Go Programming'' \<mapsto> \<lparr>Title = ''Go Programming'', AvailableCopies = 0\<rparr>,
               ''Clean Code'' \<mapsto> \<lparr>Title = ''Clean Code'', AvailableCopies = 2\<rparr>],
      Loans = [''Go Programming'' \<mapsto>
        [\<lparr>BookTitle = ''Go Programming'', NameOfBorrower = ''John'',
          LoanDate = Unix_UTC 1707636600, ReturnDate = Unix_UTC 1710055800\<rparr>,
         \<lparr>BookTitle = ''Go Programming'', NameOfBorrower = ''Jane'',
          LoanDate = Unix_UTC 1707723000, ReturnDate = Unix_UTC 1710142200\<rparr>,
         \<lparr>BookTitle = ''Go Programming'', NameOfBorrower = ''Jane'',
          LoanDate = Unix_UTC 1707809400, ReturnDate = Unix_UTC 1710228600\<rparr>]]\<rparr>"

definition newYorkLibrary :: "Time Library" where
  "newYorkLibrary =
     \<lparr>Books = [''Go Programming'' \<mapsto> \<lparr>Title = ''Go Programming'', AvailableCopies = 3\<rparr>,
               ''Clean Code'' \<mapsto> \<lparr>Title = ''Clean Code'', AvailableCopies = 1\<rparr>],
      Loans = [''Clean Code'' \<mapsto>
        [\<lparr>BookTitle = ''Clean Code'', NameOfBorrower = ''Jane Smith'',
          LoanDate = Unix_NewYork 1705822200, ReturnDate = Unix_NewYork 1708241400\<rparr>]]\<rparr>"

definition orphanLoanLibrary :: "Time Library" where
  "orphanLoanLibrary =
     library\<lparr>
       Loans := (Loans library)(''Design Patterns'' \<mapsto>
         [\<lparr>BookTitle = ''Design Patterns'', NameOfBorrower = ''Bob Johnson'',
           LoanDate = testNow, ReturnDate = AddDate_days 28 testNow\<rparr>])\<rparr>"

section \<open>Lemmas\<close>

subsection \<open>Go's date arithmetic in UTC\<close>

lemma AddDate_days_Unix_UTC:
  "AddDate_days days (Unix_UTC sec) = Unix_UTC (sec + days * 86400)"
proof -
  have "(sec div 86400 + days) * 86400 + sec mod 86400 = sec + days * 86400"
    by (simp add: algebra_simps)
  then show ?thesis
    by (simp add: AddDate_days_def Date_day_def localSec_def lookup_def UTC_def Unix_UTC_def Let_def)
qed

lemma Unix_UTC_eq [simp]: "(Unix_UTC a = Unix_UTC b) = (a = b)"
  by (simp add: Unix_UTC_def)

subsection \<open>Go's date arithmetic in New York, across the transition of 2024-03-10\<close>

lemma unixSec_Unix_NewYork [simp]: "unixSec (Unix_NewYork sec) = sec"
  by (simp add: Unix_NewYork_def)

lemma localSec_Unix_NewYork:
  "localSec (Unix_NewYork 1705822200) = 1705822200 - 18000"
  "localSec (Unix_NewYork 1707636600) = 1707636600 - 18000"
  "localSec (Unix_NewYork 1708241400) = 1708241400 - 18000"
  "localSec (Unix_NewYork 1710052200) = 1710052200 - 18000"
  "localSec (Unix_NewYork 1711863000) = 1711863000 - 14400"
  by (simp_all add: localSec_def lookup_def NewYork_def Unix_NewYork_def)

lemma AddDate_days_28_January_NewYork:
  "AddDate_days 28 (Unix_NewYork 1705822200) = Unix_NewYork 1708241400"
  by (simp add: AddDate_days_def Date_day_def localSec_def lookup_def NewYork_def
        Unix_NewYork_def Let_def)

lemma AddDate_days_28_NewYork:
  "AddDate_days 28 (Unix_NewYork 1707636600) = Unix_NewYork 1710052200"
  by (simp add: AddDate_days_def Date_day_def localSec_def lookup_def NewYork_def
        Unix_NewYork_def Let_def)

lemma AddDate_days_21_NewYork:
  "AddDate_days 21 (Unix_NewYork 1708241400) = Unix_NewYork 1710052200"
  by (simp add: AddDate_days_def Date_day_def localSec_def lookup_def NewYork_def
        Unix_NewYork_def Let_def)


subsection \<open>The first loan of a borrower and the two loops\<close>

lemma isFirstLoanOf_Cons:
  "isFirstLoanOf b (x # xs) k =
     (if NameOfBorrower x = b then k = 0 else (\<exists>j. k = Suc j \<and> isFirstLoanOf b xs j))"
  by (cases k) (auto simp: isFirstLoanOf_def)

lemma isFirstLoanOf_Nil [simp]: "\<not> isFirstLoanOf b [] k"
  by (simp add: isFirstLoanOf_def)

lemma isFirstLoanOf_unique:
  "isFirstLoanOf b ls k \<Longrightarrow> isFirstLoanOf b ls k' \<Longrightarrow> k = k'"
  by (induction ls arbitrary: k k') (auto simp: isFirstLoanOf_Cons split: if_splits)

lemma isFirstLoanOf_exists:
  "\<exists>x \<in> set ls. NameOfBorrower x = b \<Longrightarrow> \<exists>k. isFirstLoanOf b ls k"
proof (induction ls)
  case Nil
  then show ?case by simp
next
  case (Cons x xs)
  show ?case
  proof (cases "NameOfBorrower x = b")
    case True
    then have "isFirstLoanOf b (x # xs) 0" by (simp add: isFirstLoanOf_Cons)
    then show ?thesis ..
  next
    case False
    with Cons.prems have "\<exists>y \<in> set xs. NameOfBorrower y = b" by auto
    from Cons.IH [OF this] obtain j where "isFirstLoanOf b xs j" ..
    with False have "isFirstLoanOf b (x # xs) (Suc j)" by (simp add: isFirstLoanOf_Cons)
    then show ?thesis ..
  qed
qed

lemma extendLoop_None:
  "(extendLoop addDate b ls = None) = (\<forall>x \<in> set ls. NameOfBorrower x \<noteq> b)"
  by (induction ls) (auto simp: Let_def split: option.splits)

lemma extendLoop_first:
  "isFirstLoanOf b ls k \<Longrightarrow>
   extendLoop addDate b ls =
     Some (ls[k := (ls ! k)\<lparr>ReturnDate := addDate 21 (ReturnDate (ls ! k))\<rparr>],
           (ls ! k)\<lparr>ReturnDate := addDate 21 (ReturnDate (ls ! k))\<rparr>)"
  by (induction ls arbitrary: k) (auto simp: isFirstLoanOf_Cons Let_def split: if_splits)

lemma findLoanIndex_none:
  "0 \<le> i \<Longrightarrow> (findLoanIndex b ls i = -1) = (\<forall>x \<in> set ls. NameOfBorrower x \<noteq> b)"
proof (induction ls arbitrary: i)
  case Nil
  then show ?case by simp
next
  case (Cons x xs)
  from Cons.prems have "0 \<le> i + 1" by simp
  from Cons.IH [OF this] Cons.prems show ?case by auto
qed

lemma findLoanIndex_first:
  "isFirstLoanOf b ls k \<Longrightarrow> findLoanIndex b ls i = i + int k"
  by (induction ls arbitrary: k i) (auto simp: isFirstLoanOf_Cons split: if_splits)


subsection \<open>Removal by swapping with the last element\<close>

lemma mset_swap_truncate:
  assumes "k < length ls"
  shows "mset (take (length ls - 1) (ls[k := ls ! (length ls - 1)])) + {#ls ! k#} = mset ls"
proof (cases ls rule: rev_cases)
  case Nil
  with assms show ?thesis by simp
next
  case (snoc xs y)
  show ?thesis
  proof (cases "k < length xs")
    case True
    then have "xs ! k \<in># mset xs" by simp
    with True snoc show ?thesis
      by (simp add: list_update_append nth_append mset_update)
  next
    case False
    with assms snoc have "k = length xs" by simp
    with snoc show ?thesis by simp
  qed
qed

subsection \<open>Decrement and increment of a Go \<open>int\<close>\<close>

lemma sint_dec_pos:
  fixes c :: go_int
  assumes "0 < sint c"
  shows "sint (c - 1) = sint c - 1"
proof -
  have "sint c < 2 ^ 63" using sint_lt [of c] by simp
  with assms show ?thesis by (simp add: sint_word_ariths signed_take_bit_int_eq_self)
qed

lemma sint_inc_below_max:
  fixes c :: go_int
  assumes "c \<noteq> MaxInt"
  shows "sint (c + 1) = sint c + 1"
proof -
  have lt: "sint c < 2 ^ 63" using sint_lt [of c] by simp
  have ge: "- (2 ^ 63) \<le> sint c" using sint_ge [of c] by simp
  have "sint c \<noteq> 2 ^ 63 - 1"
  proof
    assume "sint c = 2 ^ 63 - 1"
    then have "sint c = sint MaxInt" by (simp add: MaxInt_def)
    then have "c = MaxInt" by (rule signed_word_eqI)
    with assms show False by simp
  qed
  with lt ge show ?thesis by (simp add: sint_word_ariths signed_take_bit_int_eq_self)
qed

subsection \<open>The branches of the operations\<close>

lemma borrowBook_fail_copies:
  "Books l title = Some book \<Longrightarrow> sint (AvailableCopies book) \<le> 0 \<Longrightarrow>
   borrowBook addDate l now title borrower = (l, Inl NoCopiesAvailable)"
  by (simp add: borrowBook_def)

lemma borrowBook_success:
  "Books l title = Some book \<Longrightarrow> 0 < sint (AvailableCopies book) \<Longrightarrow>
   borrowBook addDate l now title borrower =
     (l\<lparr>Books := (Books l)(title \<mapsto> book\<lparr>AvailableCopies := AvailableCopies book - 1\<rparr>),
        Loans := (Loans l)(title \<mapsto> (case Loans l title of None \<Rightarrow> [] | Some loans \<Rightarrow> loans) @
           [\<lparr>BookTitle = title, NameOfBorrower = borrower,
             LoanDate = now, ReturnDate = addDate 28 now\<rparr>])\<rparr>,
      Inr (Created_Loan \<lparr>BookTitle = title, NameOfBorrower = borrower,
             LoanDate = now, ReturnDate = addDate 28 now\<rparr>))"
  by (simp add: borrowBook_def Let_def)

lemma extendLoan_success:
  "Loans l title = Some loans \<Longrightarrow> isFirstLoanOf borrower loans k \<Longrightarrow>
   extendLoan addDate l title borrower =
     (l\<lparr>Loans := (Loans l)(title \<mapsto>
          loans[k := (loans ! k)\<lparr>ReturnDate := addDate 21 (ReturnDate (loans ! k))\<rparr>])\<rparr>,
      Inr (OK_Loan ((loans ! k)\<lparr>ReturnDate := addDate 21 (ReturnDate (loans ! k))\<rparr>)))"
  by (simp add: extendLoan_def extendLoop_first)

lemma extendLoan_no_borrower:
  "Loans l title = Some loans \<Longrightarrow> \<forall>x \<in> set loans. NameOfBorrower x \<noteq> borrower \<Longrightarrow>
   extendLoan addDate l title borrower = (l, Inl NoLoanForBorrower)"
  using extendLoop_None [of addDate borrower loans] by (simp add: extendLoan_def)

lemma returnBook_success:
  "Loans l title = Some loans \<Longrightarrow> Books l title = Some book \<Longrightarrow>
   isFirstLoanOf borrower loans k \<Longrightarrow>
   returnBook l title borrower =
     (l\<lparr>Loans := (Loans l)(title \<mapsto>
          take (length loans - 1) (loans[k := loans ! (length loans - 1)])),
        Books := (Books l)(title \<mapsto> book\<lparr>AvailableCopies := AvailableCopies book + 1\<rparr>)\<rparr>,
      Inr (OK_Message (returnMessage title borrower)))"
  by (simp add: returnBook_def Let_def findLoanIndex_first)

lemma returnBook_no_borrower:
  "Loans l title = Some loans \<Longrightarrow> Books l title = Some book \<Longrightarrow>
   \<forall>x \<in> set loans. NameOfBorrower x \<noteq> borrower \<Longrightarrow>
   returnBook l title borrower = (l, Inl NoLoanForBorrower)"
  using findLoanIndex_none [of 0 borrower loans] by (simp add: returnBook_def Let_def)

lemma Books_getBook: "Books (fst (getBook l title)) = Books l"
  by (simp add: getBook_def split: option.splits)

lemma Books_extendLoan: "Books (fst (extendLoan addDate l title borrower)) = Books l"
  by (simp add: extendLoan_def split: option.splits prod.splits)

lemma Books_borrowBook:
  "Books (fst (borrowBook addDate l now title borrower)) =
     (case Books l title of
        None \<Rightarrow> Books l
      | Some book \<Rightarrow>
          if sint (AvailableCopies book) \<le> 0 then Books l
          else (Books l)(title \<mapsto> book\<lparr>AvailableCopies := AvailableCopies book - 1\<rparr>))"
  by (simp add: borrowBook_def Let_def split: option.splits)

lemma Books_returnBook:
  "Books (fst (returnBook l title borrower)) = Books l \<or>
   (\<exists>book. Books l title = Some book \<and>
      Books (fst (returnBook l title borrower)) =
        (Books l)(title \<mapsto> book\<lparr>AvailableCopies := AvailableCopies book + 1\<rparr>))"
  by (simp add: returnBook_def Let_def split: option.splits)

section \<open>The claims\<close>

text \<open>
  Claim C1 (amended). From a state in which every book's \<open>AvailableCopies\<close> is non-negative,
  Lookup, Borrow and Extend lead to a state in which every book's \<open>AvailableCopies\<close> is
  non-negative, and so does Return when the title's count is not the largest \<open>int\<close>. Borrow
  changes the book map only when the title's count is strictly positive.
\<close>

theorem copies_stay_nonnegative:
  "copiesNonNegative l \<Longrightarrow>
     copiesNonNegative (fst (getBook l title)) \<and>
     copiesNonNegative (fst (borrowBook addDate l now title borrower)) \<and>
     copiesNonNegative (fst (extendLoan addDate l title borrower)) \<and>
     ((\<forall>book. Books l title = Some book \<longrightarrow> AvailableCopies book \<noteq> MaxInt) \<longrightarrow>
        copiesNonNegative (fst (returnBook l title borrower))) \<and>
     (Books (fst (borrowBook addDate l now title borrower)) \<noteq> Books l \<longrightarrow>
        (\<exists>book. Books l title = Some book \<and> 0 < sint (AvailableCopies book)))"
proof -
  assume inv: "copiesNonNegative l"
  have get: "copiesNonNegative (fst (getBook l title))"
    using inv by (simp add: copiesNonNegative_def Books_getBook)
  have ext: "copiesNonNegative (fst (extendLoan addDate l title borrower))"
    using inv by (simp add: copiesNonNegative_def Books_extendLoan)
  have bor: "copiesNonNegative (fst (borrowBook addDate l now title borrower))"
    using inv
    by (auto simp: copiesNonNegative_def Books_borrowBook sint_dec_pos
             split: option.splits if_splits)
  have ret: "copiesNonNegative (fst (returnBook l title borrower))"
    if below: "\<forall>book. Books l title = Some book \<longrightarrow> AvailableCopies book \<noteq> MaxInt"
  proof -
    from Books_returnBook [of l title borrower] show ?thesis
    proof
      assume "Books (fst (returnBook l title borrower)) = Books l"
      with inv show ?thesis by (simp add: copiesNonNegative_def)
    next
      assume "\<exists>book. Books l title = Some book \<and>
        Books (fst (returnBook l title borrower)) =
          (Books l)(title \<mapsto> book\<lparr>AvailableCopies := AvailableCopies book + 1\<rparr>)"
      then obtain book where b: "Books l title = Some book"
        and upd: "Books (fst (returnBook l title borrower)) =
          (Books l)(title \<mapsto> book\<lparr>AvailableCopies := AvailableCopies book + 1\<rparr>)" by blast
      from below b have "AvailableCopies book \<noteq> MaxInt" by simp
      then have "sint (AvailableCopies book + 1) = sint (AvailableCopies book) + 1"
        by (rule sint_inc_below_max)
      moreover from inv b have "0 \<le> sint (AvailableCopies book)"
        by (simp add: copiesNonNegative_def)
      ultimately have "0 \<le> sint (AvailableCopies book + 1)" by simp
      with inv upd show ?thesis by (auto simp: copiesNonNegative_def split: if_splits)
    qed
  qed
  have dec: "\<exists>book. Books l title = Some book \<and> 0 < sint (AvailableCopies book)"
    if "Books (fst (borrowBook addDate l now title borrower)) \<noteq> Books l"
    using that by (auto simp: Books_borrowBook split: option.splits if_splits)
  from get bor ext ret dec show ?thesis by blast
qed

text \<open>
  The state of \<open>TestReturnBookHandler\<close> satisfies the hypotheses of claim C1: returning
  ``Design Patterns'' takes its count from 0 to 1 and borrowing ``Clean Code'' takes its
  count from 2 to 1.
\<close>

theorem copies_stay_nonnegative_witness:
  "copiesNonNegative testReturnLibrary \<and>
   Books testReturnLibrary ''Design Patterns''
     = Some \<lparr>Title = ''Design Patterns'', AvailableCopies = 0\<rparr> \<and>
   (0 :: go_int) \<noteq> MaxInt \<and>
   copiesNonNegative (fst (returnBook testReturnLibrary ''Design Patterns'' ''Bob Johnson'')) \<and>
   Books (fst (returnBook testReturnLibrary ''Design Patterns'' ''Bob Johnson'')) ''Design Patterns''
     = Some \<lparr>Title = ''Design Patterns'', AvailableCopies = 1\<rparr> \<and>
   copiesNonNegative (fst (borrowBook AddDate_days testReturnLibrary testNow ''Clean Code'' ''Jane Smith'')) \<and>
   Books (fst (borrowBook AddDate_days testReturnLibrary testNow ''Clean Code'' ''Jane Smith'')) ''Clean Code''
     = Some \<lparr>Title = ''Clean Code'', AvailableCopies = 1\<rparr> \<and>
   Books (fst (borrowBook AddDate_days testReturnLibrary testNow ''Clean Code'' ''Jane Smith''))
     \<noteq> Books testReturnLibrary \<and>
   Books testReturnLibrary ''Clean Code'' = Some \<lparr>Title = ''Clean Code'', AvailableCopies = 2\<rparr>"
proof -
  have inv: "copiesNonNegative testReturnLibrary"
    by (simp add: copiesNonNegative_def testReturnLibrary_def library_def NewLibrary_def)
  have below: "\<forall>book. Books testReturnLibrary ''Design Patterns'' = Some book \<longrightarrow>
      AvailableCopies book \<noteq> MaxInt"
    by (simp add: testReturnLibrary_def library_def NewLibrary_def MaxInt_def)
  have ret: "Books (fst (returnBook testReturnLibrary ''Design Patterns'' ''Bob Johnson''))
      ''Design Patterns'' = Some \<lparr>Title = ''Design Patterns'', AvailableCopies = 1\<rparr>"
    by (simp add: returnBook_def testReturnLibrary_def library_def NewLibrary_def Let_def)
  have bor: "Books (fst (borrowBook AddDate_days testReturnLibrary testNow ''Clean Code'' ''Jane Smith''))
      ''Clean Code'' = Some \<lparr>Title = ''Clean Code'', AvailableCopies = 1\<rparr>"
    by (simp add: borrowBook_def testReturnLibrary_def library_def NewLibrary_def Let_def)
  have was: "Books testReturnLibrary ''Clean Code''
      = Some \<lparr>Title = ''Clean Code'', AvailableCopies = 2\<rparr>"
    by (simp add: testReturnLibrary_def library_def NewLibrary_def)
  have changed:
    "Books (fst (borrowBook AddDate_days testReturnLibrary testNow ''Clean Code'' ''Jane Smith''))
       \<noteq> Books testReturnLibrary"
  proof
    assume "Books (fst (borrowBook AddDate_days testReturnLibrary testNow ''Clean Code'' ''Jane Smith''))
       = Books testReturnLibrary"
    then have "Books (fst (borrowBook AddDate_days testReturnLibrary testNow ''Clean Code'' ''Jane Smith''))
       ''Clean Code'' = Books testReturnLibrary ''Clean Code''" by simp
    with bor was show False by simp
  qed
  have had: "Books testReturnLibrary ''Design Patterns''
      = Some \<lparr>Title = ''Design Patterns'', AvailableCopies = 0\<rparr>"
    by (simp add: testReturnLibrary_def)
  have zero: "(0 :: go_int) \<noteq> MaxInt"
    by (simp add: MaxInt_def)
  from inv below had zero ret bor was changed
    copies_stay_nonnegative [OF inv, where title = "''Design Patterns''"
      and addDate = AddDate_days and now = testNow and borrower = "''Bob Johnson''"]
    copies_stay_nonnegative [OF inv, where title = "''Clean Code''"
      and addDate = AddDate_days and now = testNow and borrower = "''Jane Smith''"]
  show ?thesis by blast
qed

text \<open>
  Claim C1 as it is stated fails for Return: with \<open>AvailableCopies\<close> at the largest \<open>int\<close> the
  increment of \<open>returnBookHandler\<close> wraps around to the smallest \<open>int\<close>, a negative count.
\<close>

theorem return_overflow_counterexample:
  "copiesNonNegative fullCountLibrary \<and>
   Books (fst (returnBook fullCountLibrary ''Design Patterns'' ''Bob Johnson'')) ''Design Patterns''
     = Some \<lparr>Title = ''Design Patterns'', AvailableCopies = - 0x8000000000000000\<rparr> \<and>
   sint (- 0x8000000000000000 :: go_int) = - 9223372036854775808 \<and>
   \<not> copiesNonNegative (fst (returnBook fullCountLibrary ''Design Patterns'' ''Bob Johnson''))"
proof -
  have inv: "copiesNonNegative fullCountLibrary"
    by (simp add: copiesNonNegative_def fullCountLibrary_def MaxInt_def)
  have ret: "Books (fst (returnBook fullCountLibrary ''Design Patterns'' ''Bob Johnson''))
      ''Design Patterns'' = Some \<lparr>Title = ''Design Patterns'', AvailableCopies = - 0x8000000000000000\<rparr>"
    by (simp add: returnBook_def fullCountLibrary_def Let_def MaxInt_def)
  have neg: "sint (- 0x8000000000000000 :: go_int) = - 9223372036854775808"
    by simp
  have "\<not> copiesNonNegative (fst (returnBook fullCountLibrary ''Design Patterns'' ''Bob Johnson''))"
  proof
    assume "copiesNonNegative (fst (returnBook fullCountLibrary ''Design Patterns'' ''Bob Johnson''))"
    with ret have "0 \<le> sint (- 0x8000000000000000 :: go_int)"
      unfolding copiesNonNegative_def by fastforce
    with neg show False by simp
  qed
  with inv ret neg show ?thesis by blast
qed

text \<open>
  Claim C2. For a title of the catalog whose \<open>AvailableCopies\<close> is 0, Borrow fails with
  ``No copies available'' for every borrower and returns the library as it was, book map
  and loan map.
\<close>

theorem borrow_without_copies:
  "Books l title = Some book \<Longrightarrow> AvailableCopies book = 0 \<Longrightarrow>
   borrowBook addDate l now title borrower = (l, Inl NoCopiesAvailable)"
proof -
  assume book: "Books l title = Some book" and zero: "AvailableCopies book = 0"
  from zero have "sint (AvailableCopies book) \<le> 0" by simp
  with book show ?thesis by (rule borrowBook_fail_copies)
qed

text \<open>
  In the state of \<open>TestReturnBookHandler\<close> the title ``Design Patterns'' has no copy left.
\<close>

theorem borrow_without_copies_witness:
  "Books testReturnLibrary ''Design Patterns''
     = Some \<lparr>Title = ''Design Patterns'', AvailableCopies = 0\<rparr> \<and>
   borrowBook AddDate_days testReturnLibrary testNow ''Design Patterns'' ''John Doe''
     = (testReturnLibrary, Inl NoCopiesAvailable)"
proof -
  have b: "Books testReturnLibrary ''Design Patterns''
      = Some \<lparr>Title = ''Design Patterns'', AvailableCopies = 0\<rparr>"
    by (simp add: testReturnLibrary_def)
  from b borrow_without_copies [OF b, where addDate = AddDate_days and now = testNow
      and borrower = "''John Doe''"] show ?thesis by simp
qed

text \<open>
  Claim C3 (amended). For a title of the catalog with a strictly positive
  \<open>AvailableCopies\<close>, Borrow succeeds: the count is one less (without wrap-around), the
  response is the new loan, whose \<open>LoanDate\<close> is the current time and whose \<open>ReturnDate\<close> is
  what \<open>AddDate(0, 0, 28)\<close> returns for that time, and the loan map differs only at the
  title, whose list is the old one (empty when the title had none) with the new loan at
  its end.
\<close>

theorem borrow_creates_loan:
  "Books l title = Some book \<Longrightarrow> 0 < sint (AvailableCopies book) \<Longrightarrow>
   (\<exists>loan.
      snd (borrowBook addDate l now title borrower) = Inr (Created_Loan loan) \<and>
      BookTitle loan = title \<and> NameOfBorrower loan = borrower \<and>
      LoanDate loan = now \<and> ReturnDate loan = addDate 28 (LoanDate loan) \<and>
      Loans (fst (borrowBook addDate l now title borrower)) =
        (Loans l)(title \<mapsto> (case Loans l title of None \<Rightarrow> [] | Some loans \<Rightarrow> loans) @ [loan])) \<and>
   Books (fst (borrowBook addDate l now title borrower)) =
     (Books l)(title \<mapsto> book\<lparr>AvailableCopies := AvailableCopies book - 1\<rparr>) \<and>
   sint (AvailableCopies book - 1) = sint (AvailableCopies book) - 1"
proof -
  assume book: "Books l title = Some book" and pos: "0 < sint (AvailableCopies book)"
  let ?loan = "\<lparr>BookTitle = title, NameOfBorrower = borrower,
                LoanDate = now, ReturnDate = addDate 28 now\<rparr>"
  let ?old = "case Loans l title of None \<Rightarrow> [] | Some loans \<Rightarrow> loans"
  have res: "borrowBook addDate l now title borrower =
     (l\<lparr>Books := (Books l)(title \<mapsto> book\<lparr>AvailableCopies := AvailableCopies book - 1\<rparr>),
        Loans := (Loans l)(title \<mapsto> ?old @ [?loan])\<rparr>,
      Inr (Created_Loan ?loan))"
    using book pos by (rule borrowBook_success)
  have dec: "sint (AvailableCopies book - 1) = sint (AvailableCopies book) - 1"
    using pos by (rule sint_dec_pos)
  have "snd (borrowBook addDate l now title borrower) = Inr (Created_Loan ?loan) \<and>
      BookTitle ?loan = title \<and> NameOfBorrower ?loan = borrower \<and>
      LoanDate ?loan = now \<and> ReturnDate ?loan = addDate 28 (LoanDate ?loan) \<and>
      Loans (fst (borrowBook addDate l now title borrower)) = (Loans l)(title \<mapsto> ?old @ [?loan])"
    by (simp add: res)
  then have loan: "\<exists>loan.
      snd (borrowBook addDate l now title borrower) = Inr (Created_Loan loan) \<and>
      BookTitle loan = title \<and> NameOfBorrower loan = borrower \<and>
      LoanDate loan = now \<and> ReturnDate loan = addDate 28 (LoanDate loan) \<and>
      Loans (fst (borrowBook addDate l now title borrower)) = (Loans l)(title \<mapsto> ?old @ [loan])"
    by (rule exI)
  have books: "Books (fst (borrowBook addDate l now title borrower)) =
     (Books l)(title \<mapsto> book\<lparr>AvailableCopies := AvailableCopies book - 1\<rparr>)"
    by (simp add: res)
  from loan books dec show ?thesis by blast
qed

text \<open>
  The borrow of \<open>TestBorrowBookHandler\<close>, on 2024-02-11 07:30 UTC: ``Go Programming'' goes
  from 3 copies to 2 and the loan is due on 2024-03-10 07:30 UTC.
\<close>

theorem borrow_creates_loan_witness:
  "Books library ''Go Programming'' = Some \<lparr>Title = ''Go Programming'', AvailableCopies = 3\<rparr> \<and>
   0 < sint (3 :: go_int) \<and>
   snd (borrowBook AddDate_days library testNow ''Go Programming'' ''John Doe'') =
     Inr (Created_Loan \<lparr>BookTitle = ''Go Programming'', NameOfBorrower = ''John Doe'',
            LoanDate = Unix_UTC 1707636600,
            ReturnDate = Unix_UTC 1710055800\<rparr>) \<and>
   Loans (fst (borrowBook AddDate_days library testNow ''Go Programming'' ''John Doe'')) ''Go Programming'' =
     Some [\<lparr>BookTitle = ''Go Programming'', NameOfBorrower = ''John Doe'',
            LoanDate = Unix_UTC 1707636600,
            ReturnDate = Unix_UTC 1710055800\<rparr>] \<and>
   Books (fst (borrowBook AddDate_days library testNow ''Go Programming'' ''John Doe'')) ''Go Programming'' =
     Some \<lparr>Title = ''Go Programming'', AvailableCopies = 2\<rparr>"
proof -
  have b: "Books library ''Go Programming''
      = Some \<lparr>Title = ''Go Programming'', AvailableCopies = 3\<rparr>"
    by (simp add: library_def NewLibrary_def)
  have p: "0 < sint (AvailableCopies \<lparr>Title = ''Go Programming'', AvailableCopies = 3 :: go_int\<rparr>)"
    by simp
  have none: "Loans library ''Go Programming'' = None"
    by (simp add: library_def NewLibrary_def)
  from borrow_creates_loan [OF b p, where addDate = AddDate_days and now = testNow
      and borrower = "''John Doe''"] b none
  show ?thesis
    by (auto simp: testNow_def AddDate_days_Unix_UTC)
qed

text \<open>
  Claim C3 as it is stated fails where ``plus 28 days'' meets a daylight-saving transition.
  A server in New York that lends on 2024-02-11 at 02:30 computes a return date on
  2024-03-10, when the clocks go from 02:00 to 03:00 and the reading 02:30 does not exist:
  \<open>AddDate\<close> returns 01:30 of that day, 27 days and 23 hours after the loan date.
\<close>

theorem borrow_return_date_counterexample:
  "snd (borrowBook AddDate_days library (Unix_NewYork 1707636600) ''Go Programming'' ''John Doe'') =
     Inr (Created_Loan \<lparr>BookTitle = ''Go Programming'', NameOfBorrower = ''John Doe'',
            LoanDate = Unix_NewYork 1707636600, ReturnDate = Unix_NewYork 1710052200\<rparr>) \<and>
   unixSec (Unix_NewYork 1710052200) - unixSec (Unix_NewYork 1707636600) = 28 * 86400 - 3600 \<and>
   unixSec (Unix_NewYork 1710052200) - unixSec (Unix_NewYork 1707636600) \<noteq> 28 * 86400 \<and>
   localSec (Unix_NewYork 1707636600) mod 86400 = 2 * 3600 + 30 * 60 \<and>
   localSec (Unix_NewYork 1710052200) mod 86400 = 1 * 3600 + 30 * 60"
proof -
  have "AddDate_days 28 (Unix_NewYork 1707636600) = Unix_NewYork 1710052200"
    by (rule AddDate_days_28_NewYork)
  then show ?thesis
    by (simp add: borrowBook_def library_def NewLibrary_def Let_def localSec_Unix_NewYork)
qed

text \<open>
  Claim C4 (amended). For a title with a loan list, Extend rewrites the loan at the first
  index whose borrower is the given one and nothing else: its \<open>ReturnDate\<close> becomes what
  \<open>AddDate(0, 0, 21)\<close> returns for the previous \<open>ReturnDate\<close> (the current time is not an
  input of the operation), and the response is the rewritten loan. When no loan of the list
  has that borrower, Extend fails with ``No loan found for this borrower'' and returns the
  library as it was.
\<close>

theorem extend_first_match:
  "Loans l title = Some loans \<Longrightarrow>
   (\<forall>k. isFirstLoanOf borrower loans k \<longrightarrow>
      extendLoan addDate l title borrower =
        (l\<lparr>Loans := (Loans l)(title \<mapsto>
             loans[k := (loans ! k)\<lparr>ReturnDate := addDate 21 (ReturnDate (loans ! k))\<rparr>])\<rparr>,
         Inr (OK_Loan ((loans ! k)\<lparr>ReturnDate := addDate 21 (ReturnDate (loans ! k))\<rparr>)))) \<and>
   ((\<forall>loan \<in> set loans. NameOfBorrower loan \<noteq> borrower) \<longrightarrow>
      extendLoan addDate l title borrower = (l, Inl NoLoanForBorrower))"
proof -
  assume loans: "Loans l title = Some loans"
  have found: "extendLoan addDate l title borrower =
        (l\<lparr>Loans := (Loans l)(title \<mapsto>
             loans[k := (loans ! k)\<lparr>ReturnDate := addDate 21 (ReturnDate (loans ! k))\<rparr>])\<rparr>,
         Inr (OK_Loan ((loans ! k)\<lparr>ReturnDate := addDate 21 (ReturnDate (loans ! k))\<rparr>)))"
    if "isFirstLoanOf borrower loans k" for k
    using loans that by (rule extendLoan_success)
  have missing: "extendLoan addDate l title borrower = (l, Inl NoLoanForBorrower)"
    if "\<forall>loan \<in> set loans. NameOfBorrower loan \<noteq> borrower"
    using loans that by (rule extendLoan_no_borrower)
  from found missing show ?thesis by blast
qed

lemma busyLibrary_reached:
  "busyLibrary =
     fst (borrowBook AddDate_days
       (fst (borrowBook AddDate_days
         (fst (borrowBook AddDate_days library (Unix_UTC 1707636600) ''Go Programming'' ''John''))
         (Unix_UTC 1707723000) ''Go Programming'' ''Jane''))
       (Unix_UTC 1707809400) ''Go Programming'' ''Jane'')"
  by (simp add: busyLibrary_def borrowBook_def library_def NewLibrary_def Let_def AddDate_days_Unix_UTC fun_upd_twist)

text \<open>
  In \<open>busyLibrary\<close> Jane holds the second and the third loan of ``Go Programming'': Extend
  moves the return date of the second from 2024-03-11 to 2024-04-01, 07:30 UTC, and leaves the
  third alone. Bob holds none.
\<close>

theorem extend_first_match_witness:
  "Loans busyLibrary ''Go Programming'' =
     Some [\<lparr>BookTitle = ''Go Programming'', NameOfBorrower = ''John'',
             LoanDate = Unix_UTC 1707636600, ReturnDate = Unix_UTC 1710055800\<rparr>,
           \<lparr>BookTitle = ''Go Programming'', NameOfBorrower = ''Jane'',
             LoanDate = Unix_UTC 1707723000, ReturnDate = Unix_UTC 1710142200\<rparr>,
           \<lparr>BookTitle = ''Go Programming'', NameOfBorrower = ''Jane'',
             LoanDate = Unix_UTC 1707809400, ReturnDate = Unix_UTC 1710228600\<rparr>] \<and>
   snd (extendLoan AddDate_days busyLibrary ''Go Programming'' ''Jane'') =
     Inr (OK_Loan \<lparr>BookTitle = ''Go Programming'', NameOfBorrower = ''Jane'',
             LoanDate = Unix_UTC 1707723000, ReturnDate = Unix_UTC 1711956600\<rparr>) \<and>
   Loans (fst (extendLoan AddDate_days busyLibrary ''Go Programming'' ''Jane'')) ''Go Programming'' =
     Some [\<lparr>BookTitle = ''Go Programming'', NameOfBorrower = ''John'',
             LoanDate = Unix_UTC 1707636600, ReturnDate = Unix_UTC 1710055800\<rparr>,
           \<lparr>BookTitle = ''Go Programming'', NameOfBorrower = ''Jane'',
             LoanDate = Unix_UTC 1707723000, ReturnDate = Unix_UTC 1711956600\<rparr>,
           \<lparr>BookTitle = ''Go Programming'', NameOfBorrower = ''Jane'',
             LoanDate = Unix_UTC 1707809400, ReturnDate = Unix_UTC 1710228600\<rparr>] \<and>
   extendLoan AddDate_days busyLibrary ''Go Programming'' ''Bob'' = (busyLibrary, Inl NoLoanForBorrower)"
proof -
  let ?loans = "[\<lparr>BookTitle = ''Go Programming'', NameOfBorrower = ''John'',
             LoanDate = Unix_UTC 1707636600, ReturnDate = Unix_UTC 1710055800\<rparr>,
           \<lparr>BookTitle = ''Go Programming'', NameOfBorrower = ''Jane'',
             LoanDate = Unix_UTC 1707723000, ReturnDate = Unix_UTC 1710142200\<rparr>,
           \<lparr>BookTitle = ''Go Programming'', NameOfBorrower = ''Jane'',
             LoanDate = Unix_UTC 1707809400, ReturnDate = Unix_UTC 1710228600\<rparr>]"
  have ls: "Loans busyLibrary ''Go Programming'' = Some ?loans"
    by (simp add: busyLibrary_def)
  have first: "isFirstLoanOf ''Jane'' ?loans 1"
    by (simp add: isFirstLoanOf_def)
  have none: "\<forall>loan \<in> set ?loans. NameOfBorrower loan \<noteq> ''Bob''"
    by simp
  from extend_first_match [OF ls, where addDate = AddDate_days and borrower = "''Jane''"]
    extend_first_match [OF ls, where addDate = AddDate_days and borrower = "''Bob''"]
    first none ls
  show ?thesis
    by (auto simp: AddDate_days_Unix_UTC)
qed

lemma newYorkLibrary_reached:
  "newYorkLibrary =
     fst (borrowBook AddDate_days library (Unix_NewYork 1705822200) ''Clean Code'' ''Jane Smith'')"
  by (simp add: newYorkLibrary_def borrowBook_def library_def NewLibrary_def Let_def
        AddDate_days_28_January_NewYork fun_upd_twist)

text \<open>
  Claim C4 as it is stated fails for the same reason as C3. Jane's loan in
  \<open>newYorkLibrary\<close> is due on 2024-02-18 at 02:30 New York time; Extend sets its return date
  to 01:30 on 2024-03-10, which is 20 days and 23 hours later.
\<close>

theorem extend_return_date_counterexample:
  "snd (extendLoan AddDate_days newYorkLibrary ''Clean Code'' ''Jane Smith'') =
     Inr (OK_Loan \<lparr>BookTitle = ''Clean Code'', NameOfBorrower = ''Jane Smith'',
            LoanDate = Unix_NewYork 1705822200, ReturnDate = Unix_NewYork 1710052200\<rparr>) \<and>
   Loans newYorkLibrary ''Clean Code'' =
     Some [\<lparr>BookTitle = ''Clean Code'', NameOfBorrower = ''Jane Smith'',
            LoanDate = Unix_NewYork 1705822200, ReturnDate = Unix_NewYork 1708241400\<rparr>] \<and>
   unixSec (Unix_NewYork 1710052200) - unixSec (Unix_NewYork 1708241400) = 21 * 86400 - 3600 \<and>
   unixSec (Unix_NewYork 1710052200) - unixSec (Unix_NewYork 1708241400) \<noteq> 21 * 86400 \<and>
   localSec (Unix_NewYork 1708241400) mod 86400 = 2 * 3600 + 30 * 60 \<and>
   localSec (Unix_NewYork 1710052200) mod 86400 = 1 * 3600 + 30 * 60"
proof -
  have ls: "Loans newYorkLibrary ''Clean Code'' =
     Some [\<lparr>BookTitle = ''Clean Code'', NameOfBorrower = ''Jane Smith'',
            LoanDate = Unix_NewYork 1705822200, ReturnDate = Unix_NewYork 1708241400\<rparr>]"
    by (simp add: newYorkLibrary_def)
  have "AddDate_days 21 (Unix_NewYork 1708241400) = Unix_NewYork 1710052200"
    by (rule AddDate_days_21_NewYork)
  then show ?thesis
    by (simp add: extendLoan_def ls Let_def localSec_Unix_NewYork)
qed




lemma returnBook_Inr:
  assumes "snd (returnBook l title borrower) = Inr r"
  shows "\<exists>loans book k. Loans l title = Some loans \<and> Books l title = Some book \<and>
           isFirstLoanOf borrower loans k"
proof -
  from assms obtain loans where ls: "Loans l title = Some loans"
    by (cases "Loans l title") (simp_all add: returnBook_def)
  from assms ls obtain book where b: "Books l title = Some book"
    by (cases "Books l title") (simp_all add: returnBook_def)
  have "\<exists>x \<in> set loans. NameOfBorrower x = borrower"
  proof (rule ccontr)
    assume "\<not> (\<exists>x \<in> set loans. NameOfBorrower x = borrower)"
    then have "\<forall>x \<in> set loans. NameOfBorrower x \<noteq> borrower" by simp
    with ls b have "returnBook l title borrower = (l, Inl NoLoanForBorrower)"
      by (rule returnBook_no_borrower)
    with assms show False by simp
  qed
  then obtain k where "isFirstLoanOf borrower loans k"
    using isFirstLoanOf_exists by blast
  with ls b show ?thesis by blast
qed

text \<open>
  Claim C6 (amended). Whenever Return succeeds, the title has a loan list and a book, and
  with \<open>k\<close> the first index whose borrower is the given one: the new list is the old one
  with the last loan written over index \<open>k\<close> and the last position cut off, so as a
  multiset it is the old list without the loan at \<open>k\<close>; no other title's list changes;
  and the title's \<open>AvailableCopies\<close> is what Go's \<open>++\<close> makes of it, which is the count
  plus 1 when the count is not the largest \<open>int\<close>.
\<close>

theorem return_removes_first_match:
  "snd (returnBook l title borrower) = Inr r \<Longrightarrow>
   (\<exists>loans book k remaining.
      Loans l title = Some loans \<and> Books l title = Some book \<and>
      isFirstLoanOf borrower loans k \<and>
      remaining = take (length loans - 1) (loans[k := loans ! (length loans - 1)]) \<and>
      fst (returnBook l title borrower) =
        l\<lparr>Loans := (Loans l)(title \<mapsto> remaining),
          Books := (Books l)(title \<mapsto> book\<lparr>AvailableCopies := AvailableCopies book + 1\<rparr>)\<rparr> \<and>
      r = OK_Message (returnMessage title borrower) \<and>
      mset remaining + {#loans ! k#} = mset loans \<and>
      length remaining + 1 = length loans \<and>
      (AvailableCopies book \<noteq> MaxInt \<longrightarrow>
         sint (AvailableCopies book + 1) = sint (AvailableCopies book) + 1))"
proof -
  assume ok: "snd (returnBook l title borrower) = Inr r"
  from returnBook_Inr [OF ok] obtain loans book k where
    ls: "Loans l title = Some loans" and b: "Books l title = Some book" and
    first: "isFirstLoanOf borrower loans k" by blast
  from first have k: "k < length loans" by (simp add: isFirstLoanOf_def)
  let ?remaining = "take (length loans - 1) (loans[k := loans ! (length loans - 1)])"
  have res: "returnBook l title borrower =
        (l\<lparr>Loans := (Loans l)(title \<mapsto> ?remaining),
           Books := (Books l)(title \<mapsto> book\<lparr>AvailableCopies := AvailableCopies book + 1\<rparr>)\<rparr>,
         Inr (OK_Message (returnMessage title borrower)))"
    using ls b first by (rule returnBook_success)
  from res ok have r: "r = OK_Message (returnMessage title borrower)" by simp
  from res have st: "fst (returnBook l title borrower) =
        l\<lparr>Loans := (Loans l)(title \<mapsto> ?remaining),
          Books := (Books l)(title \<mapsto> book\<lparr>AvailableCopies := AvailableCopies book + 1\<rparr>)\<rparr>"
    by simp
  have ms: "mset ?remaining + {#loans ! k#} = mset loans"
    using k by (rule mset_swap_truncate)
  have len: "length ?remaining + 1 = length loans"
    using k by simp
  from ls b first st r ms len sint_inc_below_max [of "AvailableCopies book"]
  show ?thesis by blast
qed

text \<open>
  Returning John's loan, the first of three in \<open>busyLibrary\<close>, moves Jane's later
  loan in front of her earlier one: the order of the remaining loans is not the former one.
\<close>

theorem return_removes_first_match_witness:
  "snd (returnBook busyLibrary ''Go Programming'' ''John'') =
     Inr (OK_Message (returnMessage ''Go Programming'' ''John'')) \<and>
   Loans (fst (returnBook busyLibrary ''Go Programming'' ''John'')) ''Go Programming'' =
     Some [\<lparr>BookTitle = ''Go Programming'', NameOfBorrower = ''Jane'',
             LoanDate = Unix_UTC 1707809400, ReturnDate = Unix_UTC 1710228600\<rparr>,
           \<lparr>BookTitle = ''Go Programming'', NameOfBorrower = ''Jane'',
             LoanDate = Unix_UTC 1707723000, ReturnDate = Unix_UTC 1710142200\<rparr>] \<and>
   Books (fst (returnBook busyLibrary ''Go Programming'' ''John'')) ''Go Programming'' =
     Some \<lparr>Title = ''Go Programming'', AvailableCopies = 1\<rparr>"
proof -
  let ?loans = "[\<lparr>BookTitle = ''Go Programming'', NameOfBorrower = ''John'',
             LoanDate = Unix_UTC 1707636600, ReturnDate = Unix_UTC 1710055800\<rparr>,
           \<lparr>BookTitle = ''Go Programming'', NameOfBorrower = ''Jane'',
             LoanDate = Unix_UTC 1707723000, ReturnDate = Unix_UTC 1710142200\<rparr>,
           \<lparr>BookTitle = ''Go Programming'', NameOfBorrower = ''Jane'',
             LoanDate = Unix_UTC 1707809400, ReturnDate = Unix_UTC 1710228600\<rparr>]"
  have ls: "Loans busyLibrary ''Go Programming'' = Some ?loans"
    by (simp add: busyLibrary_def)
  have b: "Books busyLibrary ''Go Programming'' =
      Some \<lparr>Title = ''Go Programming'', AvailableCopies = 0\<rparr>"
    by (simp add: busyLibrary_def)
  have first: "isFirstLoanOf ''John'' ?loans 0"
    by (simp add: isFirstLoanOf_def)
  have ok: "snd (returnBook busyLibrary ''Go Programming'' ''John'') =
      Inr (OK_Message (returnMessage ''Go Programming'' ''John''))"
    by (simp add: returnBook_def ls b Let_def)
  from return_removes_first_match [OF ok] obtain loans book k remaining where
    ls': "Loans busyLibrary ''Go Programming'' = Some loans" and
    b': "Books busyLibrary ''Go Programming'' = Some book" and
    first': "isFirstLoanOf ''John'' loans k" and
    rem: "remaining = take (length loans - 1) (loans[k := loans ! (length loans - 1)])" and
    st: "fst (returnBook busyLibrary ''Go Programming'' ''John'') =
        busyLibrary\<lparr>Loans := (Loans busyLibrary)(''Go Programming'' \<mapsto> remaining),
          Books := (Books busyLibrary)(''Go Programming'' \<mapsto>
            book\<lparr>AvailableCopies := AvailableCopies book + 1\<rparr>)\<rparr>"
    by blast
  from ls ls' have loans: "loans = ?loans" by simp
  from b b' have book: "book = \<lparr>Title = ''Go Programming'', AvailableCopies = 0\<rparr>" by simp
  from first first' loans have k: "k = 0" by (simp add: isFirstLoanOf_unique)
  from rem loans k have "remaining =
     [\<lparr>BookTitle = ''Go Programming'', NameOfBorrower = ''Jane'',
             LoanDate = Unix_UTC 1707809400, ReturnDate = Unix_UTC 1710228600\<rparr>,
           \<lparr>BookTitle = ''Go Programming'', NameOfBorrower = ''Jane'',
             LoanDate = Unix_UTC 1707723000, ReturnDate = Unix_UTC 1710142200\<rparr>]"
    by simp
  with ok st book show ?thesis by simp
qed

text \<open>
  Claim C6 as it is stated fails for the increment: in \<open>fullCountLibrary\<close> Return succeeds
  and takes the count from the largest \<open>int\<close> to the smallest, which is not the count plus 1.
\<close>

theorem return_increment_counterexample:
  "snd (returnBook fullCountLibrary ''Design Patterns'' ''Bob Johnson'') =
     Inr (OK_Message (returnMessage ''Design Patterns'' ''Bob Johnson'')) \<and>
   Books fullCountLibrary ''Design Patterns''
     = Some \<lparr>Title = ''Design Patterns'', AvailableCopies = MaxInt\<rparr> \<and>
   Books (fst (returnBook fullCountLibrary ''Design Patterns'' ''Bob Johnson'')) ''Design Patterns''
     = Some \<lparr>Title = ''Design Patterns'', AvailableCopies = MaxInt + 1\<rparr> \<and>
   sint MaxInt = 9223372036854775807 \<and>
   sint (MaxInt + 1) = - 9223372036854775808 \<and>
   sint (MaxInt + 1) \<noteq> sint MaxInt + 1"
  by (simp add: returnBook_def fullCountLibrary_def Let_def MaxInt_def)

text \<open>
  Claim C7. For a title of the catalog with a strictly positive \<open>AvailableCopies\<close>, Borrow
  followed by Return for the same borrower both succeed, the book map is again the one
  before the Borrow, and the title's loan list has again as many loans as before the
  Borrow (none when the title had no list), one fewer than after the Borrow; no other
  title's list changes.
\<close>

theorem borrow_then_return:
  "Books l title = Some book \<Longrightarrow> 0 < sint (AvailableCopies book) \<Longrightarrow>
   (\<exists>loan l1 l2 loans2.
      borrowBook addDate l now title borrower = (l1, Inr (Created_Loan loan)) \<and>
      returnBook l1 title borrower = (l2, Inr (OK_Message (returnMessage title borrower))) \<and>
      Books l2 = Books l \<and>
      Loans l1 title = Some ((case Loans l title of None \<Rightarrow> [] | Some loans \<Rightarrow> loans) @ [loan]) \<and>
      Loans l2 title = Some loans2 \<and>
      length loans2 = length (case Loans l title of None \<Rightarrow> [] | Some loans \<Rightarrow> loans) \<and>
      (\<forall>other. other \<noteq> title \<longrightarrow> Loans l2 other = Loans l other))"
proof -
  assume b: "Books l title = Some book" and pos: "0 < sint (AvailableCopies book)"
  let ?loan = "\<lparr>BookTitle = title, NameOfBorrower = borrower,
                LoanDate = now, ReturnDate = addDate 28 now\<rparr>"
  let ?old = "case Loans l title of None \<Rightarrow> [] | Some loans \<Rightarrow> loans"
  let ?book1 = "book\<lparr>AvailableCopies := AvailableCopies book - 1\<rparr>"
  let ?l1 = "l\<lparr>Books := (Books l)(title \<mapsto> ?book1), Loans := (Loans l)(title \<mapsto> ?old @ [?loan])\<rparr>"
  have r1: "borrowBook addDate l now title borrower = (?l1, Inr (Created_Loan ?loan))"
    using b pos by (rule borrowBook_success)
  have ls1: "Loans ?l1 title = Some (?old @ [?loan])" by simp
  have b1: "Books ?l1 title = Some ?book1" by simp
  have "\<exists>x \<in> set (?old @ [?loan]). NameOfBorrower x = borrower" by simp
  then obtain k where first: "isFirstLoanOf borrower (?old @ [?loan]) k"
    using isFirstLoanOf_exists by blast
  then have k: "k < length (?old @ [?loan])" by (simp add: isFirstLoanOf_def)
  let ?loans2 = "take (length (?old @ [?loan]) - 1)
                   ((?old @ [?loan])[k := (?old @ [?loan]) ! (length (?old @ [?loan]) - 1)])"
  let ?l2 = "?l1\<lparr>Loans := (Loans ?l1)(title \<mapsto> ?loans2),
                  Books := (Books ?l1)(title \<mapsto> ?book1\<lparr>AvailableCopies := AvailableCopies ?book1 + 1\<rparr>)\<rparr>"
  have r2: "returnBook ?l1 title borrower = (?l2, Inr (OK_Message (returnMessage title borrower)))"
    using ls1 b1 first by (rule returnBook_success)
  have books: "Books ?l2 = Books l"
    using b by (auto simp: fun_eq_iff)
  have len: "length ?loans2 = length ?old"
    using k by simp
  have other: "\<forall>other. other \<noteq> title \<longrightarrow> Loans ?l2 other = Loans l other"
    by simp
  have ls2: "Loans ?l2 title = Some ?loans2" by simp
  from r1 r2 books ls1 ls2 len other show ?thesis by blast
qed

text \<open>
  In the state of \<open>TestExtendLoanHandler\<close> ``Clean Code'' has one copy and one loan, before
  and after John borrows and returns it.
\<close>

theorem borrow_then_return_witness:
  "Books testExtendLibrary ''Clean Code'' = Some \<lparr>Title = ''Clean Code'', AvailableCopies = 1\<rparr> \<and>
   0 < sint (1 :: go_int) \<and>
   Books (fst (returnBook (fst (borrowBook AddDate_days testExtendLibrary testNow ''Clean Code'' ''John Doe''))
            ''Clean Code'' ''John Doe'')) ''Clean Code''
     = Some \<lparr>Title = ''Clean Code'', AvailableCopies = 1\<rparr> \<and>
   Books (fst (borrowBook AddDate_days testExtendLibrary testNow ''Clean Code'' ''John Doe'')) ''Clean Code''
     = Some \<lparr>Title = ''Clean Code'', AvailableCopies = 0\<rparr> \<and>
   map_option length
     (Loans (fst (returnBook (fst (borrowBook AddDate_days testExtendLibrary testNow ''Clean Code'' ''John Doe''))
            ''Clean Code'' ''John Doe'')) ''Clean Code'') = Some 1"
proof -
  have b: "Books testExtendLibrary ''Clean Code'' = Some \<lparr>Title = ''Clean Code'', AvailableCopies = 1\<rparr>"
    by (simp add: testExtendLibrary_def)
  have p: "0 < sint (AvailableCopies \<lparr>Title = ''Clean Code'', AvailableCopies = 1 :: go_int\<rparr>)"
    by simp
  have old: "Loans testExtendLibrary ''Clean Code'' =
      Some [\<lparr>BookTitle = ''Clean Code'', NameOfBorrower = ''Jane Smith'',
             LoanDate = testNow, ReturnDate = AddDate_days 28 testNow\<rparr>]"
    by (simp add: testExtendLibrary_def)
  have mid: "Books (fst (borrowBook AddDate_days testExtendLibrary testNow ''Clean Code'' ''John Doe'')) ''Clean Code''
     = Some \<lparr>Title = ''Clean Code'', AvailableCopies = 0\<rparr>"
    by (simp add: borrowBook_def b Let_def)
  from borrow_then_return [OF b p, where addDate = AddDate_days and now = testNow
      and borrower = "''John Doe''"] b old mid
  show ?thesis by auto
qed

lemma extendLoan_no_loans:
  "Loans l title = None \<Longrightarrow> extendLoan addDate l title borrower = (l, Inl NoLoansForBook)"
  by (simp add: extendLoan_def)

lemma returnBook_no_loans:
  "Loans l title = None \<Longrightarrow> returnBook l title borrower = (l, Inl NoLoansForBook)"
  by (simp add: returnBook_def)

lemma returnBook_no_book:
  "Loans l title = Some loans \<Longrightarrow> Books l title = None \<Longrightarrow>
   returnBook l title borrower = (l, Inl BookNotFound)"
  by (simp add: returnBook_def)

text \<open>
  Claim C8 as it is stated fails for a loan list that is present but empty, the state that the
  Return of \<open>TestReturnBookHandler\<close> leaves behind: Extend and Return find the key in
  \<open>Loans\<close>, scan the empty list and fail with ``No loan found for this borrower''.
\<close>

theorem empty_loan_list_counterexample:
  "Loans (fst (returnBook testReturnLibrary ''Design Patterns'' ''Bob Johnson'')) ''Design Patterns''
     = Some [] \<and>
   snd (extendLoan AddDate_days (fst (returnBook testReturnLibrary ''Design Patterns'' ''Bob Johnson''))
          ''Design Patterns'' ''Bob Johnson'') = Inl NoLoanForBorrower \<and>
   snd (extendLoan AddDate_days (fst (returnBook testReturnLibrary ''Design Patterns'' ''Bob Johnson''))
          ''Design Patterns'' ''Bob Johnson'') \<noteq> Inl NoLoansForBook \<and>
   snd (extendLoan AddDate_days (fst (returnBook testReturnLibrary ''Design Patterns'' ''Bob Johnson''))
          ''Design Patterns'' ''Bob Johnson'') \<noteq> Inl BookNotFound \<and>
   snd (returnBook (fst (returnBook testReturnLibrary ''Design Patterns'' ''Bob Johnson''))
          ''Design Patterns'' ''Bob Johnson'') = Inl NoLoanForBorrower"
proof -
  have ls: "Loans (fst (returnBook testReturnLibrary ''Design Patterns'' ''Bob Johnson''))
      ''Design Patterns'' = Some []"
    by (simp add: returnBook_def testReturnLibrary_def Let_def)
  have b: "Books (fst (returnBook testReturnLibrary ''Design Patterns'' ''Bob Johnson''))
      ''Design Patterns'' = Some \<lparr>Title = ''Design Patterns'', AvailableCopies = 1\<rparr>"
    by (simp add: returnBook_def testReturnLibrary_def Let_def)
  have none: "\<forall>x \<in> set ([] :: Time LoanDetail list). NameOfBorrower x \<noteq> ''Bob Johnson''" by simp
  from ls extendLoan_no_borrower [OF ls none] returnBook_no_borrower [OF ls b none]
  show ?thesis by simp
qed

text \<open>
  Claim C8 (amended). When the title is no key of \<open>Loans\<close>, Extend and Return fail with
  ``No loans found for this book''. When the title is no key of \<open>Books\<close>, Return fails with
  that error or with ``Book not found''. When the title's loan list is present but empty,
  Extend fails with ``No loan found for this borrower'', and so does Return unless the title
  is no key of \<open>Books\<close>. All of these are 404 responses and return the library as it was.
\<close>

theorem no_loans_not_found:
  "(Loans l title = None \<longrightarrow>
      extendLoan addDate l title borrower = (l, Inl NoLoansForBook) \<and>
      returnBook l title borrower = (l, Inl NoLoansForBook)) \<and>
   (Books l title = None \<longrightarrow>
      fst (returnBook l title borrower) = l \<and>
      snd (returnBook l title borrower) \<in> {Inl NoLoansForBook, Inl BookNotFound}) \<and>
   (Loans l title = Some [] \<longrightarrow>
      extendLoan addDate l title borrower = (l, Inl NoLoanForBorrower) \<and>
      returnBook l title borrower =
        (l, Inl (if Books l title = None then BookNotFound else NoLoanForBorrower))) \<and>
   statusCode NoLoansForBook = 404 \<and> statusCode BookNotFound = 404 \<and>
   statusCode NoLoanForBorrower = 404"
proof -
  have a: "extendLoan addDate l title borrower = (l, Inl NoLoansForBook) \<and>
      returnBook l title borrower = (l, Inl NoLoansForBook)" if "Loans l title = None"
    using that by (simp add: extendLoan_no_loans returnBook_no_loans)
  have b: "fst (returnBook l title borrower) = l \<and>
      snd (returnBook l title borrower) \<in> {Inl NoLoansForBook, Inl BookNotFound}"
    if "Books l title = None"
    using that by (cases "Loans l title") (simp_all add: returnBook_no_loans returnBook_no_book)
  have c: "extendLoan addDate l title borrower = (l, Inl NoLoanForBorrower) \<and>
      returnBook l title borrower =
        (l, Inl (if Books l title = None then BookNotFound else NoLoanForBorrower))"
    if "Loans l title = Some []"
    using that by (cases "Books l title") (simp_all add: extendLoan_def returnBook_def)
  from a b c show ?thesis by simp
qed

text \<open>
  The three cases of claim C8 in the seeded library, in \<open>orphanLoanLibrary\<close> and in the seeded
  library with an empty list for ``Clean Code''.
\<close>

theorem no_loans_not_found_witness:
  "Loans library ''Go Programming'' = None \<and>
   extendLoan AddDate_days library ''Go Programming'' ''John Doe'' = (library, Inl NoLoansForBook) \<and>
   returnBook library ''Go Programming'' ''John Doe'' = (library, Inl NoLoansForBook) \<and>
   Books orphanLoanLibrary ''Design Patterns'' = None \<and>
   returnBook orphanLoanLibrary ''Design Patterns'' ''Bob Johnson''
     = (orphanLoanLibrary, Inl BookNotFound) \<and>
   Loans (library\<lparr>Loans := [''Clean Code'' \<mapsto> []]\<rparr>) ''Clean Code'' = Some [] \<and>
   extendLoan AddDate_days (library\<lparr>Loans := [''Clean Code'' \<mapsto> []]\<rparr>) ''Clean Code'' ''Jane Smith''
     = (library\<lparr>Loans := [''Clean Code'' \<mapsto> []]\<rparr>, Inl NoLoanForBorrower) \<and>
   returnBook (library\<lparr>Loans := [''Clean Code'' \<mapsto> []]\<rparr>) ''Clean Code'' ''Jane Smith''
     = (library\<lparr>Loans := [''Clean Code'' \<mapsto> []]\<rparr>, Inl NoLoanForBorrower)"
proof -
  have a: "Loans library ''Go Programming'' = None"
    by (simp add: library_def NewLibrary_def)
  have b: "Books orphanLoanLibrary ''Design Patterns'' = None"
    by (simp add: orphanLoanLibrary_def library_def NewLibrary_def)
  have b': "Loans orphanLoanLibrary ''Design Patterns'' \<noteq> None"
    by (simp add: orphanLoanLibrary_def)
  have c: "Loans (library\<lparr>Loans := [''Clean Code'' \<mapsto> []]\<rparr>) ''Clean Code'' = Some []"
    by simp
  have c': "Books (library\<lparr>Loans := [''Clean Code'' \<mapsto> []]\<rparr>) ''Clean Code'' \<noteq> None"
    by (simp add: library_def NewLibrary_def)
  have r: "snd (returnBook orphanLoanLibrary ''Design Patterns'' ''Bob Johnson'') \<noteq> Inl NoLoansForBook"
    by (simp add: returnBook_def orphanLoanLibrary_def library_def NewLibrary_def)
  from a b c c' r
    no_loans_not_found [where l = library and title = "''Go Programming''"
      and addDate = AddDate_days and borrower = "''John Doe''"]
    no_loans_not_found [where l = orphanLoanLibrary and title = "''Design Patterns''"
      and addDate = AddDate_days and borrower = "''Bob Johnson''"]
    no_loans_not_found [where l = "library\<lparr>Loans := [''Clean Code'' \<mapsto> []]\<rparr>"
      and title = "''Clean Code''" and addDate = AddDate_days and borrower = "''Jane Smith''"]
  show ?thesis
    by (auto simp: prod_eq_iff)
qed

lemma dom_Books_borrowBook: "dom (Books (fst (borrowBook addDate l now title borrower))) = dom (Books l)"
  by (auto simp: Books_borrowBook split: option.splits if_splits)

lemma dom_Books_returnBook: "dom (Books (fst (returnBook l title borrower))) = dom (Books l)"
proof -
  from Books_returnBook [of l title borrower] show ?thesis
  proof
    assume "Books (fst (returnBook l title borrower)) = Books l"
    then show ?thesis by simp
  next
    assume "\<exists>book. Books l title = Some book \<and>
      Books (fst (returnBook l title borrower)) =
        (Books l)(title \<mapsto> book\<lparr>AvailableCopies := AvailableCopies book + 1\<rparr>)"
    then obtain book where "Books l title = Some book"
      and "Books (fst (returnBook l title borrower)) =
        (Books l)(title \<mapsto> book\<lparr>AvailableCopies := AvailableCopies book + 1\<rparr>)" by blast
    then show ?thesis by (simp add: insert_absorb domI)
  qed
qed

text \<open>
  Claim C9. Lookup returns the library as it was; it answers with a book exactly when that
  book is stored under the very string asked for, and with ``Book not found'' exactly when
  that string is no key of \<open>Books\<close>. The set of keys of \<open>Books\<close> is the same after each of
  the four operations.
\<close>

theorem lookup_and_catalog_keys:
  "fst (getBook l title) = l \<and>
   (snd (getBook l title) = Inr (OK_Book book) \<longleftrightarrow> Books l title = Some book) \<and>
   (snd (getBook l title) = Inl BookNotFound \<longleftrightarrow> title \<notin> dom (Books l)) \<and>
   dom (Books (fst (getBook l title))) = dom (Books l) \<and>
   dom (Books (fst (borrowBook addDate l now title borrower))) = dom (Books l) \<and>
   dom (Books (fst (extendLoan addDate l title borrower))) = dom (Books l) \<and>
   dom (Books (fst (returnBook l title borrower))) = dom (Books l)"
proof -
  have "fst (getBook l title) = l"
    by (simp add: getBook_def split: option.splits)
  moreover have "snd (getBook l title) = Inr (OK_Book book) \<longleftrightarrow> Books l title = Some book"
    by (simp add: getBook_def split: option.splits)
  moreover have "snd (getBook l title) = Inl BookNotFound \<longleftrightarrow> title \<notin> dom (Books l)"
    by (auto simp: getBook_def split: option.splits)
  ultimately show ?thesis
    by (simp add: Books_extendLoan dom_Books_borrowBook dom_Books_returnBook)
qed

text \<open>
  In the seeded library ``Go Programming'' is found; the same title in lower case, or with
  a space after it, is not.
\<close>

theorem lookup_and_catalog_keys_witness:
  "getBook library ''Go Programming''
     = (library, Inr (OK_Book \<lparr>Title = ''Go Programming'', AvailableCopies = 3\<rparr>)) \<and>
   getBook library ''go programming'' = (library, Inl BookNotFound) \<and>
   getBook library ''Go Programming '' = (library, Inl BookNotFound) \<and>
   dom (Books (fst (borrowBook AddDate_days library testNow ''Go Programming'' ''John Doe'')))
     = {''Go Programming'', ''Clean Code''} \<and>
   dom (Books (fst (returnBook testReturnLibrary ''Design Patterns'' ''Bob Johnson'')))
     = {''Go Programming'', ''Clean Code'', ''Design Patterns''}"
proof -
  have a: "Books library ''Go Programming''
      = Some \<lparr>Title = ''Go Programming'', AvailableCopies = 3\<rparr>"
    by (simp add: library_def NewLibrary_def)
  have b: "''go programming'' \<notin> dom (Books library)"
    by (simp add: library_def NewLibrary_def)
  have c: "''Go Programming '' \<notin> dom (Books library)"
    by (simp add: library_def NewLibrary_def)
  have d: "dom (Books library) = {''Go Programming'', ''Clean Code''}"
    by (auto simp: library_def NewLibrary_def)
  have e: "dom (Books testReturnLibrary) = {''Go Programming'', ''Clean Code'', ''Design Patterns''}"
    by (auto simp: testReturnLibrary_def library_def NewLibrary_def)
  from a b c d e
    lookup_and_catalog_keys [where l = library and title = "''Go Programming''"
      and book = "\<lparr>Title = ''Go Programming'', AvailableCopies = 3\<rparr>"
      and addDate = AddDate_days and now = testNow and borrower = "''John Doe''"]
    lookup_and_catalog_keys [where l = library and title = "''go programming''"]
    lookup_and_catalog_keys [where l = library and title = "''Go Programming ''"]
    lookup_and_catalog_keys [where l = testReturnLibrary and title = "''Design Patterns''"
      and borrower = "''Bob Johnson''"]
  show ?thesis
    by (simp add: prod_eq_iff)
qed

lemma extendLoan_Books_update:
  "extendLoan addDate (l\<lparr>Books := books\<rparr>) title borrower =
     ((fst (extendLoan addDate l title borrower))\<lparr>Books := books\<rparr>, snd (extendLoan addDate l title borrower))"
  by (simp add: extendLoan_def split: option.splits prod.splits)

text \<open>
  Claim C10. Extend does not read \<open>Books\<close>: replacing the book map changes neither its response
  nor the loan map it leaves. For a title that is no key of \<open>Books\<close> but has a loan of the
  borrower, Extend succeeds while Return fails with ``Book not found'' and returns the
  library as it was.
\<close>

theorem extend_ignores_catalog:
  "extendLoan addDate (l\<lparr>Books := books\<rparr>) title borrower =
     ((fst (extendLoan addDate l title borrower))\<lparr>Books := books\<rparr>, snd (extendLoan addDate l title borrower)) \<and>
   (Books l title = None \<and> Loans l title = Some loans \<and> isFirstLoanOf borrower loans k \<longrightarrow>
      extendLoan addDate l title borrower =
        (l\<lparr>Loans := (Loans l)(title \<mapsto>
             loans[k := (loans ! k)\<lparr>ReturnDate := addDate 21 (ReturnDate (loans ! k))\<rparr>])\<rparr>,
         Inr (OK_Loan ((loans ! k)\<lparr>ReturnDate := addDate 21 (ReturnDate (loans ! k))\<rparr>))) \<and>
      returnBook l title borrower = (l, Inl BookNotFound))"
proof -
  have frame: "extendLoan addDate (l\<lparr>Books := books\<rparr>) title borrower =
     ((fst (extendLoan addDate l title borrower))\<lparr>Books := books\<rparr>, snd (extendLoan addDate l title borrower))"
    by (rule extendLoan_Books_update)
  have orphan: "extendLoan addDate l title borrower =
        (l\<lparr>Loans := (Loans l)(title \<mapsto>
             loans[k := (loans ! k)\<lparr>ReturnDate := addDate 21 (ReturnDate (loans ! k))\<rparr>])\<rparr>,
         Inr (OK_Loan ((loans ! k)\<lparr>ReturnDate := addDate 21 (ReturnDate (loans ! k))\<rparr>))) \<and>
      returnBook l title borrower = (l, Inl BookNotFound)"
    if "Books l title = None" and "Loans l title = Some loans"
      and "isFirstLoanOf borrower loans k"
    using that by (simp add: extendLoan_success returnBook_no_book)
  from frame orphan show ?thesis by blast
qed

text \<open>Bob's loan of ``Design Patterns'' in \<open>orphanLoanLibrary\<close>, whose catalog lacks the title.\<close>

theorem extend_ignores_catalog_witness:
  "Books orphanLoanLibrary ''Design Patterns'' = None \<and>
   Loans orphanLoanLibrary ''Design Patterns'' =
     Some [\<lparr>BookTitle = ''Design Patterns'', NameOfBorrower = ''Bob Johnson'',
            LoanDate = Unix_UTC 1707636600, ReturnDate = Unix_UTC 1710055800\<rparr>] \<and>
   snd (extendLoan AddDate_days orphanLoanLibrary ''Design Patterns'' ''Bob Johnson'') =
     Inr (OK_Loan \<lparr>BookTitle = ''Design Patterns'', NameOfBorrower = ''Bob Johnson'',
            LoanDate = Unix_UTC 1707636600, ReturnDate = Unix_UTC 1711870200\<rparr>) \<and>
   returnBook orphanLoanLibrary ''Design Patterns'' ''Bob Johnson''
     = (orphanLoanLibrary, Inl BookNotFound)"
proof -
  let ?loans = "[\<lparr>BookTitle = ''Design Patterns'', NameOfBorrower = ''Bob Johnson'',
            LoanDate = Unix_UTC 1707636600, ReturnDate = Unix_UTC 1710055800\<rparr>]"
  have b: "Books orphanLoanLibrary ''Design Patterns'' = None"
    by (simp add: orphanLoanLibrary_def library_def NewLibrary_def)
  have ls: "Loans orphanLoanLibrary ''Design Patterns'' = Some ?loans"
    by (simp add: orphanLoanLibrary_def testNow_def AddDate_days_Unix_UTC)
  have first: "isFirstLoanOf ''Bob Johnson'' ?loans 0"
    by (simp add: isFirstLoanOf_def)
  from b ls first
    extend_ignores_catalog [where l = orphanLoanLibrary and title = "''Design Patterns''"
      and borrower = "''Bob Johnson''" and loans = ?loans and k = 0]
  show ?thesis
    by (simp add: AddDate_days_Unix_UTC)
qed

section \<open>The handlers and the operations\<close>

text \<open>
  A handler runs its operation on a request with the right method and non-empty fields, and
  rejects every other request with status 400 or 405, leaving the library as it was.
\<close>

lemma getBookHandler_valid:
  "Method r = ''GET'' \<Longrightarrow> QueryTitle r \<noteq> [] \<Longrightarrow>
   getBookHandler l r = getBook l (QueryTitle r)"
  by (simp add: getBookHandler_def)

lemma borrowBookHandler_valid:
  "Method r = ''POST'' \<Longrightarrow> Body r = Some (title, borrower) \<Longrightarrow> title \<noteq> [] \<Longrightarrow>
   borrower \<noteq> [] \<Longrightarrow> borrowBookHandler addDate l now r = borrowBook addDate l now title borrower"
  by (simp add: borrowBookHandler_def)

lemma extendLoanHandler_valid:
  "Method r = ''POST'' \<Longrightarrow> Body r = Some (title, borrower) \<Longrightarrow> title \<noteq> [] \<Longrightarrow>
   borrower \<noteq> [] \<Longrightarrow> extendLoanHandler addDate l r = extendLoan addDate l title borrower"
  by (simp add: extendLoanHandler_def)

lemma returnBookHandler_valid:
  "Method r = ''POST'' \<Longrightarrow> Body r = Some (title, borrower) \<Longrightarrow> title \<noteq> [] \<Longrightarrow>
   borrower \<noteq> [] \<Longrightarrow> returnBookHandler l r = returnBook l title borrower"
  by (simp add: returnBookHandler_def)

lemma getBookHandler_rejects:
  "Method r \<noteq> ''GET'' \<or> QueryTitle r = [] \<Longrightarrow>
   fst (getBookHandler l r) = l \<and>
   (\<exists>e. snd (getBookHandler l r) = Inl e \<and> statusCode e \<in> {400, 405})"
  by (auto simp: getBookHandler_def)

lemma borrowBookHandler_rejects:
  "Method r \<noteq> ''POST'' \<or> Body r = None \<or> (\<exists>borrower. Body r = Some ([], borrower)) \<or>
     (\<exists>title. Body r = Some (title, [])) \<Longrightarrow>
   fst (borrowBookHandler addDate l now r) = l \<and>
   (\<exists>e. snd (borrowBookHandler addDate l now r) = Inl e \<and> statusCode e \<in> {400, 405})"
  by (auto simp: borrowBookHandler_def)

lemma extendLoanHandler_rejects:
  "Method r \<noteq> ''POST'' \<or> Body r = None \<or> (\<exists>borrower. Body r = Some ([], borrower)) \<or>
     (\<exists>title. Body r = Some (title, [])) \<Longrightarrow>
   fst (extendLoanHandler addDate l r) = l \<and>
   (\<exists>e. snd (extendLoanHandler addDate l r) = Inl e \<and> statusCode e \<in> {400, 405})"
  by (auto simp: extendLoanHandler_def)

lemma returnBookHandler_rejects:
  "Method r \<noteq> ''POST'' \<or> Body r = None \<or> (\<exists>borrower. Body r = Some ([], borrower)) \<or>
     (\<exists>title. Body r = Some (title, [])) \<Longrightarrow>
   fst (returnBookHandler l r) = l \<and>
   (\<exists>e. snd (returnBookHandler l r) = Inl e \<and> statusCode e \<in> {400, 405})"
  by (auto simp: returnBookHandler_def)

end
